theory Spec2Isabelle
  imports Complex_Main "HOL-Library.Word"
begin

section \<open>JavaScript values\<close>

text \<open>
  A JavaScript string is a sequence of UTF-16 code units. The literals of the source are
  ASCII; \<open>js\<close> turns an Isabelle literal into its code units.
\<close>

type_synonym jsstring = "16 word list"

definition js :: "string \<Rightarrow> jsstring" where
  "js s = map (\<lambda>c. of_nat (of_char c)) s"

text \<open>
  The values that \<open>JSON.parse\<close> produces, and \<open>undefined\<close>. Numbers are the finite
  values of JSON; a property list holds the own properties of an object, one per key.
\<close>

datatype jsval =
    JUndefined
  | JNull
  | JBool bool
  | JNum rat
  | JStr jsstring
  | JArr "jsval list"
  | JObj "(jsstring \<times> jsval) list"

datatype js_error =
    TypeError jsstring
  | SyntaxError jsstring
  | Error jsstring

text \<open>\<open>e.message\<close>\<close>

fun message_of :: "js_error \<Rightarrow> jsstring" where
  "message_of (TypeError m) = m"
| "message_of (SyntaxError m) = m"
| "message_of (Error m) = m"

text \<open>\<open>!v\<close> is \<open>\<not> truthy v\<close>: the falsy values are undefined, null, false, 0 and "".\<close>

fun truthy :: "jsval \<Rightarrow> bool" where
  "truthy JUndefined = False"
| "truthy JNull = False"
| "truthy (JBool b) = b"
| "truthy (JNum n) = (n \<noteq> 0)"
| "truthy (JStr s) = (s \<noteq> [])"
| "truthy (JArr _) = True"
| "truthy (JObj _) = True"

text \<open>\<open>a || b\<close>\<close>

definition or_else :: "jsval \<Rightarrow> jsval \<Rightarrow> jsval" where
  "or_else a b = (if truthy a then a else b)"

text \<open>\<open>typeof v === 'string'\<close>\<close>

fun is_string :: "jsval \<Rightarrow> bool" where
  "is_string (JStr _) = True"
| "is_string _ = False"

text \<open>
  \<open>o.k\<close> for the property names this program reads, none of which is a built-in property
  of a string, number, boolean or array: reading from undefined or null throws a
  TypeError (with the message of V8), a missing property reads as undefined.
\<close>

definition quoted :: "string \<Rightarrow> jsstring" where
  "quoted k = [0x27] @ js k @ [0x27]"

fun get :: "jsval \<Rightarrow> string \<Rightarrow> js_error + jsval" where
  "get JUndefined k =
     Inl (TypeError (js ''Cannot read properties of undefined (reading '' @ quoted k @ js '')''))"
| "get JNull k =
     Inl (TypeError (js ''Cannot read properties of null (reading '' @ quoted k @ js '')''))"
| "get (JObj kvs) k = Inr (case map_of kvs (js k) of None \<Rightarrow> JUndefined | Some v \<Rightarrow> v)"
| "get _ k = Inr JUndefined"

text \<open>A property read where the object is known to be there: a failed read gives undefined.\<close>

definition field :: "jsval \<Rightarrow> string \<Rightarrow> jsval" where
  "field v k = (case get v k of Inr x \<Rightarrow> x | Inl _ \<Rightarrow> JUndefined)"

section \<open>The route \<open>POST /api/research\<close>: the synchronous part\<close>

datatype response = Response (status_code: nat) (body: jsval)

text \<open>
  The state the handler's callbacks share once the subprocess is spawned:
  what was written to its standard input, the two buffers \<open>output\<close> and \<open>error\<close>
  (here \<open>output_buf\<close> and \<open>error_buf\<close>), the value of
  \<open>researchOptions.research_timeout\<close> that the timeout is armed with, whether the timeout
  is pending, whether \<open>pythonProcess.kill()\<close> was called, whether the close event was
  handled, \<open>res.statusCode\<close>, the calls of \<open>res.json\<close> in order, each with the status
  code it was made with, and whether an exception escaped a callback.
\<close>

record handler_state =
  requestData :: jsval
  output_buf :: jsstring
  error_buf :: jsstring
  timeout_arg :: jsval
  timeout_pending :: bool
  killed :: bool
  closed :: bool
  statusCode :: nat
  res_calls :: "response list"
  uncaught :: bool

datatype outcome = Responded response | Spawned handler_state

fun pipeline_started :: "outcome \<Rightarrow> bool" where
  "pipeline_started (Spawned _) = True"
| "pipeline_started (Responded _) = False"

text \<open>\<open>const { query, options = {} } = req.body\<close>: the default applies to undefined only.\<close>

definition destructure :: "jsval \<Rightarrow> js_error + jsval \<times> jsval" where
  "destructure b =
     (if b = JUndefined \<or> b = JNull then
        Inl (TypeError (js ''Cannot destructure property '' @ quoted ''query'' @ js '' of '' @
                        quoted ''req.body'' @ js '' as it is '' @
                        (if b = JNull then js ''null'' else js ''undefined'') @ js ''.''))
      else case get b ''query'' of
        Inl e \<Rightarrow> Inl e
      | Inr query \<Rightarrow>
          (case get b ''options'' of
             Inl e \<Rightarrow> Inl e
           | Inr options \<Rightarrow> Inr (query, if options = JUndefined then JObj [] else options)))"

definition researchOptions :: "jsval \<Rightarrow> js_error + jsval" where
  "researchOptions options =
     (case get options ''depth'' of Inl e \<Rightarrow> Inl e | Inr depth \<Rightarrow>
      case get options ''max_sources'' of Inl e \<Rightarrow> Inl e | Inr max_sources \<Rightarrow>
      case get options ''include_contact_info'' of Inl e \<Rightarrow> Inl e | Inr include_contact_info \<Rightarrow>
      case get options ''research_timeout'' of Inl e \<Rightarrow> Inl e | Inr research_timeout \<Rightarrow>
        Inr (JObj [
          (js ''depth'', or_else depth (JStr (js ''standard''))),
          (js ''max_sources'', or_else max_sources (JNum 20)),
          (js ''include_contact_info'', or_else include_contact_info (JBool False)),
          (js ''research_timeout'', or_else research_timeout (JNum 300))]))"

definition invalid_request :: response where
  "invalid_request =
     Response 400 (JObj [(js ''error'', JStr (js ''Query is required and must be a string''))])"

definition internal_error :: "js_error \<Rightarrow> response" where
  "internal_error e =
     Response 500 (JObj [(js ''error'', JStr (js ''Internal server error'')),
                         (js ''details'', JStr (message_of e))])"

text \<open>
  The state when the synchronous part has run: the subprocess has the request, the
  buffers are empty, the timeout is armed, the status code is the 200 that a response
  starts with.
\<close>

definition spawned :: "jsval \<Rightarrow> jsval \<Rightarrow> handler_state" where
  "spawned query ro =
     \<lparr> requestData = JObj [(js ''query'', query), (js ''options'', ro)],
       output_buf = [], error_buf = [],
       timeout_arg = field ro ''research_timeout'',
       timeout_pending = True, killed = False, closed = False,
       statusCode = 200, res_calls = [], uncaught = False \<rparr>"

text \<open>
  The body of the handler up to the registration of the callbacks. The \<open>try\<close> block
  turns every exception into the response 500 \<open>Internal server error\<close>.
\<close>

definition api_research :: "jsval \<Rightarrow> outcome" where
  "api_research req_body =
     (case destructure req_body of
        Inl e \<Rightarrow> Responded (internal_error e)
      | Inr (query, options) \<Rightarrow>
          if \<not> truthy query \<or> \<not> is_string query then Responded invalid_request
          else (case researchOptions options of
                  Inl e \<Rightarrow> Responded (internal_error e)
                | Inr ro \<Rightarrow> Spawned (spawned query ro)))"

section \<open>The route \<open>POST /api/research\<close>: the callbacks\<close>

text \<open>
  After the spawn the handler reacts to four events: a chunk on the subprocess's standard
  output or standard error (already decoded by \<open>data.toString()\<close>), the close of the
  subprocess with its exit code (\<open>None\<close> is \<open>null\<close>, a subprocess ended by a signal),
  and the expiry of the timeout.
\<close>

datatype event =
    StdoutData jsstring
  | StderrData jsstring
  | Close "nat option"
  | TimeoutFires

definition headersSent :: "handler_state \<Rightarrow> bool" where
  "headersSent s = (res_calls s \<noteq> [])"

text \<open>\<open>res.status(n)\<close> sets the status code and nothing else.\<close>

definition res_status :: "nat \<Rightarrow> handler_state \<Rightarrow> handler_state" where
  "res_status n s = s\<lparr>statusCode := n\<rparr>"

text \<open>
  A call \<open>res.json(v)\<close>, recorded with the status code that is set when it is made.
  Express sends the first response of a request; a later call on the same \<open>res\<close> throws,
  because the headers are sent.
\<close>

definition json_call :: "jsval \<Rightarrow> handler_state \<Rightarrow> handler_state" where
  "json_call v s = s\<lparr>res_calls := res_calls s @ [Response (statusCode s) v]\<rparr>"

text \<open>
  \<open>res.status(n).json(v)\<close> outside a \<open>try\<close> block, for the response with status \<open>n\<close>
  and body \<open>v\<close>: when the call throws, nothing in a callback catches the exception.
\<close>

definition res_json :: "response \<Rightarrow> handler_state \<Rightarrow> handler_state" where
  "res_json r s =
     (json_call (body r) (res_status (status_code r) s))\<lparr>uncaught := uncaught s \<or> headersSent s\<rparr>"

definition process_failed :: "jsstring \<Rightarrow> response" where
  "process_failed err =
     Response 500 (JObj [(js ''error'', JStr (js ''Research process failed'')),
                         (js ''details'', or_else (JStr err) (JStr (js ''Unknown error occurred'')))])"

definition parse_failed :: "js_error \<Rightarrow> response" where
  "parse_failed parseError =
     Response 500 (JObj [(js ''error'', JStr (js ''Failed to parse research results'')),
                         (js ''details'', JStr (message_of parseError))])"

definition timed_out :: response where
  "timed_out = Response 408 (JObj [(js ''error'', JStr (js ''Research request timed out''))])"

definition headers_sent_error :: js_error where
  "headers_sent_error = Error (js ''Cannot set headers after they are sent to the client'')"

text \<open>
  The first listener of \<open>close\<close>. \<open>JSON.parse\<close> is a parameter: it returns the parsed
  value or the SyntaxError it throws. \<open>res.json(result)\<close> is called without
  \<open>res.status\<close>, so with the status code as it stands: 200 on a fresh response, 408
  after the timeout. It is inside the \<open>try\<close> block, so when it throws the \<open>catch\<close> block
  runs and makes a call of its own.
\<close>

definition on_close ::
  "(jsstring \<Rightarrow> js_error + jsval) \<Rightarrow> nat option \<Rightarrow> handler_state \<Rightarrow> handler_state" where
  "on_close JSON_parse code s =
     (if code \<noteq> Some 0 then res_json (process_failed (error_buf s)) s
      else case JSON_parse (output_buf s) of
        Inl parseError \<Rightarrow> res_json (parse_failed parseError) s
      | Inr result \<Rightarrow>
          if headersSent s
          then res_json (parse_failed headers_sent_error) (json_call result s)
          else json_call result s)"

text \<open>The callback of \<open>setTimeout\<close>.\<close>

definition on_timeout :: "handler_state \<Rightarrow> handler_state" where
  "on_timeout s = res_json timed_out (s\<lparr>killed := True\<rparr>)"

text \<open>
  One event. The second listener of \<open>close\<close> clears the timeout; it runs when the first one
  has returned, that is, has not thrown. No data arrives after the close, the subprocess
  closes once, and a timeout that has fired or was cleared does not fire.
\<close>

fun step ::
  "(jsstring \<Rightarrow> js_error + jsval) \<Rightarrow> handler_state \<Rightarrow> event \<Rightarrow> handler_state" where
  "step JSON_parse s (StdoutData d) =
     (if closed s then s else s\<lparr>output_buf := output_buf s @ d\<rparr>)"
| "step JSON_parse s (StderrData d) =
     (if closed s then s else s\<lparr>error_buf := error_buf s @ d\<rparr>)"
| "step JSON_parse s (Close code) =
     (if closed s then s
      else let s' = on_close JSON_parse code (s\<lparr>closed := True\<rparr>)
           in if headersSent s then s' else s'\<lparr>timeout_pending := False\<rparr>)"
| "step JSON_parse s TimeoutFires =
     (if timeout_pending s then on_timeout (s\<lparr>timeout_pending := False\<rparr>) else s)"

definition run ::
  "(jsstring \<Rightarrow> js_error + jsval) \<Rightarrow> handler_state \<Rightarrow> event list \<Rightarrow> handler_state" where
  "run JSON_parse s evs = foldl (step JSON_parse) s evs"

text \<open>What the caller receives: the first response, if any.\<close>

definition delivered :: "handler_state \<Rightarrow> response option" where
  "delivered s = (case res_calls s of [] \<Rightarrow> None | r # _ \<Rightarrow> Some r)"

text \<open>
  The whole request: what the caller receives for a body and a sequence of events.
\<close>

definition received ::
  "(jsstring \<Rightarrow> js_error + jsval) \<Rightarrow> jsval \<Rightarrow> event list \<Rightarrow> response option" where
  "received JSON_parse req_body evs =
     (case api_research req_body of
        Responded r \<Rightarrow> Some r
      | Spawned s \<Rightarrow> delivered (run JSON_parse s evs))"

fun is_data :: "event \<Rightarrow> bool" where
  "is_data (StdoutData _) = True"
| "is_data (StderrData _) = True"
| "is_data _ = False"

text \<open>The text that a sequence of events puts on the standard error.\<close>

fun stderr_text :: "event list \<Rightarrow> jsstring" where
  "stderr_text [] = []"
| "stderr_text (StderrData d # evs) = d @ stderr_text evs"
| "stderr_text (_ # evs) = stderr_text evs"

section \<open>The route \<open>POST /api/research\<close>: the time of the timeout\<close>

text \<open>
  The timeout is armed by \<open>setTimeout(f, researchOptions.research_timeout * 1000)\<close>.
  \<open>timeout_delay\<close> is the delay in milliseconds that this gives the timer. For a whole
  number the product is a whole number, and Node takes it as the delay when it lies
  between 1 and 2147483647 and takes 1 otherwise. For every other value (a fraction,
  whose product is rounded, or a value that is first converted to a number) the delay is
  what the engine makes of it, the parameter \<open>engine\<close>.
\<close>

definition timeout_delay :: "(jsval \<Rightarrow> nat) \<Rightarrow> jsval \<Rightarrow> nat" where
  "timeout_delay engine v =
     (case v of
        JNum n \<Rightarrow>
          if of_int \<lfloor>n\<rfloor> = n
          then (if 1 \<le> n * 1000 \<and> n * 1000 \<le> 2147483647 then nat \<lfloor>n * 1000\<rfloor> else 1)
          else engine v
      | _ \<Rightarrow> engine v)"

text \<open>
  What the subprocess does is a list of its events (chunks and the close) in the order in
  which the handler's callbacks for them run, each with the time at which that is, in
  milliseconds after the timeout was armed. The callback of the timeout runs when the
  delay has passed: before the first event of the subprocess whose time is the delay or
  later, or after all of them. A timeout that was cleared by then does nothing.
\<close>

fun schedule :: "nat \<Rightarrow> (nat \<times> event) list \<Rightarrow> event list" where
  "schedule d [] = [TimeoutFires]"
| "schedule d ((t, e) # tes) =
     (if d \<le> t then TimeoutFires # e # map snd tes else e # schedule d tes)"

definition run_timed ::
  "(jsval \<Rightarrow> nat) \<Rightarrow> (jsstring \<Rightarrow> js_error + jsval) \<Rightarrow> handler_state \<Rightarrow> (nat \<times> event) list \<Rightarrow>
   handler_state" where
  "run_timed engine JSON_parse s tes =
     run JSON_parse s (schedule (timeout_delay engine (timeout_arg s)) tes)"

section \<open>The shapes the research endpoint is specified with\<close>

text \<open>
  The request shape as the specification words it: a non-empty query, a depth among quick,
  standard and deep, positive whole numbers for \<open>max_sources\<close> and \<open>research_timeout\<close>, a
  boolean \<open>include_contact_info\<close>. The route does not contain this check; it is what the
  requests the route accepts are compared with.
\<close>

fun positive_integer :: "jsval \<Rightarrow> bool" where
  "positive_integer (JNum n) = (0 < n \<and> of_int \<lfloor>n\<rfloor> = n)"
| "positive_integer _ = False"

fun is_boolean :: "jsval \<Rightarrow> bool" where
  "is_boolean (JBool _) = True"
| "is_boolean _ = False"

definition spec_request_shape :: "jsval \<Rightarrow> bool" where
  "spec_request_shape r =
     (is_string (field r ''query'') \<and> truthy (field r ''query'') \<and>
      field (field r ''options'') ''depth'' \<in> set [JStr (js ''quick''), JStr (js ''standard''), JStr (js ''deep'')] \<and>
      positive_integer (field (field r ''options'') ''max_sources'') \<and>
      is_boolean (field (field r ''options'') ''include_contact_info'') \<and>
      positive_integer (field (field r ''options'') ''research_timeout''))"

text \<open>The fixed messages of the route's error responses.\<close>

definition error_messages :: "jsstring list" where
  "error_messages =
     [js ''Query is required and must be a string'',
      js ''Internal server error'',
      js ''Research process failed'',
      js ''Failed to parse research results'',
      js ''Research request timed out'']"

fun keys :: "jsval \<Rightarrow> jsstring list" where
  "keys (JObj kvs) = map fst kvs"
| "keys _ = []"

text \<open>
  A failure response as the specification words it: a structured error with a
  machine-readable kind and a human message.
\<close>

definition spec_structured_error :: "response \<Rightarrow> bool" where
  "spec_structured_error r =
     (is_string (field (body r) ''kind'') \<and> is_string (field (body r) ''message''))"

text \<open>What the route's error responses are: \<open>{error}\<close> or \<open>{error, details}\<close>, both strings.\<close>

definition error_body :: "jsval \<Rightarrow> bool" where
  "error_body b =
     (field b ''error'' \<in> set (map JStr error_messages) \<and>
      (keys b = [js ''error''] \<or>
       keys b = [js ''error'', js ''details''] \<and> is_string (field b ''details'')))"

section \<open>The client: \<open>handleSubmit\<close> of the home page\<close>

datatype status_tag =
  starting | expanding | searching | scraping | ranking | synthesizing | complete | error

record ResearchStatus =
  status :: status_tag
  message :: jsstring
  progress :: "rat option"

text \<open>
  \<open>String.prototype.trim\<close> removes the white space and line terminators of ECMAScript
  from both ends.
\<close>

definition is_whitespace :: "16 word \<Rightarrow> bool" where
  "is_whitespace c =
     (c \<in> set [0x9, 0xA, 0xB, 0xC, 0xD, 0x20, 0xA0, 0x1680, 0x2028, 0x2029, 0x202F, 0x205F,
               0x3000, 0xFEFF]
      \<or> (0x2000 \<le> c \<and> c \<le> 0x200A))"

definition trim :: "jsstring \<Rightarrow> jsstring" where
  "trim s = rev (dropWhile is_whitespace (rev (dropWhile is_whitespace s)))"

text \<open>
  What \<open>handleSubmit\<close> does, in order: the calls of the state setters and the call of
  \<open>fetch\<close> with the body it sends.
\<close>

datatype ui_action =
    setIsLoading bool
  | setResult "jsval option"
  | setStatus ResearchStatus
  | fetch jsval

text \<open>
  How the awaited \<open>fetch\<close> ends: it rejects, or it resolves to a response with its \<open>ok\<close>
  flag and the outcome of \<open>response.json()\<close>.
\<close>

datatype fetch_result =
    Rejects js_error
  | Resolves bool "js_error + jsval"

definition client_options :: jsval where
  "client_options =
     JObj [(js ''depth'', JStr (js ''standard'')),
           (js ''max_sources'', JNum 15),
           (js ''include_contact_info'', JBool False),
           (js ''research_timeout'', JNum 120)]"

definition request_body :: "jsstring \<Rightarrow> jsval" where
  "request_body query = JObj [(js ''query'', JStr query), (js ''options'', client_options)]"

text \<open>
  The \<open>try\<close> block after the call of \<open>fetch\<close>: the research result, or the exception
  thrown. \<open>String\<close> is the conversion that \<open>new Error(v)\<close> applies to its argument.
\<close>

definition try_block :: "(jsval \<Rightarrow> jsstring) \<Rightarrow> fetch_result \<Rightarrow> js_error + jsval" where
  "try_block String r =
     (case r of
        Rejects e \<Rightarrow> Inl e
      | Resolves ok json \<Rightarrow>
          if \<not> ok then
            (case json of
               Inl e \<Rightarrow> Inl e
             | Inr errorData \<Rightarrow>
                 (case get errorData ''error'' of
                    Inl e \<Rightarrow> Inl e
                  | Inr m \<Rightarrow> Inl (Error (String (or_else m (JStr (js ''Research failed'')))))))
          else json)"

text \<open>
  Every exception of the \<open>try\<close> block is an \<open>Error\<close>, so the \<open>catch\<close> block shows its
  message.
\<close>

definition handleSubmit ::
  "(jsval \<Rightarrow> jsstring) \<Rightarrow> jsstring \<Rightarrow> fetch_result \<Rightarrow> ui_action list" where
  "handleSubmit String query r =
     (if trim query = [] then []
      else
        [setIsLoading True,
         setResult None,
         setStatus \<lparr>status = starting, message = js ''Initializing research...'', progress = None\<rparr>,
         fetch (request_body query)]
        @ (case try_block String r of
             Inr researchResult \<Rightarrow>
               [setResult (Some researchResult),
                setStatus \<lparr>status = complete, message = js ''Research complete!'', progress = None\<rparr>]
           | Inl e \<Rightarrow>
               [setStatus \<lparr>status = error, message = message_of e, progress = None\<rparr>])
        @ [setIsLoading False])"

text \<open>The statuses set, in order.\<close>

fun statuses :: "ui_action list \<Rightarrow> ResearchStatus list" where
  "statuses [] = []"
| "statuses (setStatus st # as) = st # statuses as"
| "statuses (_ # as) = statuses as"

fun fetches :: "ui_action list \<Rightarrow> jsval list" where
  "fetches [] = []"
| "fetches (fetch b # as) = b # fetches as"
| "fetches (_ # as) = fetches as"

section \<open>The research result\<close>

text \<open>The interfaces of the shared schema. An optional property is an option.\<close>

record ResearchSource =
  title :: jsstring
  url :: jsstring
  relevance_score :: rat
  key_findings :: jsstring
  domain :: jsstring
  last_updated :: "jsstring option"
  content_length :: rat
  quality_score :: rat

record ResearchMetadata =
  sources_searched :: rat
  sources_processed :: rat
  research_time_seconds :: rat
  confidence_score :: rat
  query_type :: jsstring
  sub_questions :: "jsstring list"

record ResearchResult =
  query :: jsstring
  answer :: jsstring
  research_metadata :: ResearchMetadata
  sources :: "ResearchSource list"
  follow_up_suggestions :: "jsstring list"

text \<open>The JavaScript object that a value of each interface is.\<close>

definition source_value :: "ResearchSource \<Rightarrow> jsval" where
  "source_value src =
     JObj ([(js ''title'', JStr (title src)),
            (js ''url'', JStr (url src)),
            (js ''relevance_score'', JNum (relevance_score src)),
            (js ''key_findings'', JStr (key_findings src)),
            (js ''domain'', JStr (domain src))]
           @ (case last_updated src of None \<Rightarrow> [] | Some d \<Rightarrow> [(js ''last_updated'', JStr d)])
           @ [(js ''content_length'', JNum (content_length src)),
              (js ''quality_score'', JNum (quality_score src))])"

definition metadata_value :: "ResearchMetadata \<Rightarrow> jsval" where
  "metadata_value m =
     JObj [(js ''sources_searched'', JNum (sources_searched m)),
           (js ''sources_processed'', JNum (sources_processed m)),
           (js ''research_time_seconds'', JNum (research_time_seconds m)),
           (js ''confidence_score'', JNum (confidence_score m)),
           (js ''query_type'', JStr (query_type m)),
           (js ''sub_questions'', JArr (map JStr (sub_questions m)))]"

definition result_value :: "ResearchResult \<Rightarrow> jsval" where
  "result_value r =
     JObj [(js ''query'', JStr (query r)),
           (js ''answer'', JStr (answer r)),
           (js ''research_metadata'', metadata_value (research_metadata r)),
           (js ''sources'', JArr (map source_value (sources r))),
           (js ''follow_up_suggestions'', JArr (map JStr (follow_up_suggestions r)))]"







section \<open>The pipeline's deadline\<close>

text \<open>
  The pipeline itself (\<open>server/research_runner.py\<close>, which the route spawns) is not among
  the sources; what follows is taken from the specification.
\<close>

text \<open>
  Modelled from the spec: the error taxonomy of the pipeline (section 7); the pipeline's
  code is missing.
\<close>

datatype pipeline_error =
  InvalidRequest | UpstreamUnavailable | Timeout | SynthesisFailure | NoViableSources

text \<open>
  Modelled from the spec: a pipeline run under its overall deadline (sections 2 and 5);
  the pipeline's code is missing. The stages run strictly one after the other and the
  whole request carries a single overall deadline; exceeding it makes the pipeline
  terminate with the error \<open>Timeout\<close>, and no result is returned. A stage is given by the
  wall-clock time it takes, in milliseconds; the run returns the time that has elapsed
  when the last stage is done.
\<close>

fun run_stages :: "nat \<Rightarrow> nat \<Rightarrow> nat list \<Rightarrow> pipeline_error + nat" where
  "run_stages deadline elapsed [] = Inr elapsed"
| "run_stages deadline elapsed (d # ds) =
     (if deadline < elapsed + d then Inl Timeout
      else run_stages deadline (elapsed + d) ds)"

text \<open>
  Modelled from the spec: the \<open>research_time_seconds\<close> of the Result Assembler (section
  4.6), the wall-clock span of the whole pipeline in seconds, for a run whose deadline is
  \<open>research_timeout\<close> seconds; the assembler's code is missing.
\<close>

definition pipeline_time :: "nat \<Rightarrow> nat list \<Rightarrow> pipeline_error + rat" where
  "pipeline_time research_timeout stage_ms =
     (case run_stages (1000 * research_timeout) 0 stage_ms of
        Inl e \<Rightarrow> Inl e
      | Inr ms \<Rightarrow> Inr (of_nat ms / 1000))"

section \<open>The Result Assembler\<close>

text \<open>
  Modelled from the spec: the scored document of section 3, as far as the result shows
  it (the body text, the search snippet and the sub-query it came from are left out); the
  Ranker that produces it is part of the missing pipeline. The relevance and the quality
  score are between 0 and 1; the publish or update date is there when one was detected.
\<close>

record ScoredDocument =
  doc_url :: jsstring
  doc_title :: jsstring
  doc_content_length :: nat
  doc_date :: "jsstring option"
  doc_domain :: jsstring
  doc_relevance :: rat
  doc_quality :: rat
  doc_key_findings :: jsstring

text \<open>
  Modelled from the spec: the projection of a scored document that the result lists as a
  source (section 3), into the declared interface \<open>ResearchSource\<close>; the assembler's code
  is missing. The detected date goes to \<open>last_updated\<close>, the one place the interface has
  for it.
\<close>

definition project :: "ScoredDocument \<Rightarrow> ResearchSource" where
  "project d =
     \<lparr> title = doc_title d, url = doc_url d, relevance_score = doc_relevance d,
       key_findings = doc_key_findings d, domain = doc_domain d, last_updated = doc_date d,
       content_length = of_nat (doc_content_length d), quality_score = doc_quality d \<rparr>"

text \<open>
  Modelled from the spec: the sources that the answer actually cites (sections 4.5 and
  4.6); the synthesizer's code is missing. Citation N is the N-th ranked document.
\<close>

definition cited_documents :: "ScoredDocument list \<Rightarrow> nat list \<Rightarrow> ScoredDocument list" where
  "cited_documents docs citations =
     map snd (filter (\<lambda>(i, d). i \<in> set citations) (enumerate 1 docs))"

text \<open>
  Modelled from the spec: the confidence score of section 4.6, a function of the fraction
  of sources actually cited, of the average relevance score of the cited sources, and of
  whether the factcheck revisions were exhausted, which lowers it; the assembler's code
  is missing. The specification leaves the formula open (section 9) and asks for a
  documented choice: here the product of the fraction and the average, halved when the
  revisions were exhausted, and 0 when nothing is cited.
\<close>

definition confidence :: "ScoredDocument list \<Rightarrow> nat list \<Rightarrow> bool \<Rightarrow> rat" where
  "confidence docs citations revisions_exhausted =
     (let cited = cited_documents docs citations in
      if cited = [] then 0
      else (of_nat (length cited) / of_nat (length docs))
           * (sum_list (map doc_relevance cited) / of_nat (length cited))
           * (if revisions_exhausted then 1 / 2 else 1))"

text \<open>
  Modelled from the spec: what the stages hand to the Result Assembler (section 4.6):
  the query, the answer with its citations, the ranked documents that were selected,
  the counts of sources, the wall-clock span of the run, whether the revisions were
  exhausted, the query type, the sub-questions and the follow-up suggestions.
\<close>

record assembler_input =
  in_query :: jsstring
  in_answer :: jsstring
  in_documents :: "ScoredDocument list"
  in_citations :: "nat list"
  in_sources_searched :: nat
  in_sources_processed :: nat
  in_time_seconds :: rat
  in_revisions_exhausted :: bool
  in_query_type :: jsstring
  in_sub_questions :: "jsstring list"
  in_follow_ups :: "jsstring list"

text \<open>
  Modelled from the spec: the Result Assembler of section 4.6, which combines these into
  a result of the declared interface; its code is missing. The sources are the
  projections of the ranked documents, in their order.
\<close>

definition assemble :: "assembler_input \<Rightarrow> ResearchResult" where
  "assemble i =
     \<lparr> query = in_query i, answer = in_answer i,
       research_metadata =
         \<lparr> sources_searched = of_nat (in_sources_searched i),
           sources_processed = of_nat (in_sources_processed i),
           research_time_seconds = in_time_seconds i,
           confidence_score =
             confidence (in_documents i) (in_citations i) (in_revisions_exhausted i),
           query_type = in_query_type i, sub_questions = in_sub_questions i \<rparr>,
       sources = map project (in_documents i),
       follow_up_suggestions = in_follow_ups i \<rparr>"

section \<open>Example requests\<close>

text \<open>Options that the specification excludes: an unknown depth, negative numbers, a string flag.\<close>

definition unchecked_options :: jsval where
  "unchecked_options =
     JObj [(js ''depth'', JStr (js ''bogus'')),
           (js ''max_sources'', JNum (- 3)),
           (js ''include_contact_info'', JStr (js ''yes'')),
           (js ''research_timeout'', JNum (- 1))]"

definition unchecked_body :: jsval where
  "unchecked_body = JObj [(js ''query'', JStr (js ''q'')), (js ''options'', unchecked_options)]"

text \<open>A query of one space, with \<open>options: null\<close> and without options.\<close>

definition null_options_body :: jsval where
  "null_options_body = JObj [(js ''query'', JStr (js '' '')), (js ''options'', JNull)]"

definition whitespace_body :: jsval where
  "whitespace_body = JObj [(js ''query'', JStr (js '' ''))]"

text \<open>Every option present and falsy.\<close>

definition falsy_options :: jsval where
  "falsy_options =
     JObj [(js ''depth'', JStr []),
           (js ''max_sources'', JNum 0),
           (js ''include_contact_info'', JBool False),
           (js ''research_timeout'', JNum 0)]"

definition falsy_options_body :: jsval where
  "falsy_options_body = JObj [(js ''query'', JStr (js ''q'')), (js ''options'', falsy_options)]"

text \<open>
  A run of the pipeline with one ranked document, which has a date and is cited; the
  result assembled from it; and the text that the subprocess prints for that result.
  The numbers are ones that JSON text gives exactly.
\<close>

definition example_input :: assembler_input where
  "example_input =
     \<lparr> in_query = js ''q'', in_answer = js ''Paris [1]'',
       in_documents =
         [\<lparr> doc_url = js ''https://example.org'', doc_title = js ''t'',
            doc_content_length = 10, doc_date = Some (js ''2024-01-01''),
            doc_domain = js ''example.org'', doc_relevance = 1 / 2, doc_quality = 3 / 4,
            doc_key_findings = js ''k'' \<rparr>],
       in_citations = [1], in_sources_searched = 1, in_sources_processed = 1,
       in_time_seconds = 109 / 2, in_revisions_exhausted = False,
       in_query_type = js ''factual'', in_sub_questions = [], in_follow_ups = [] \<rparr>"

definition example_result :: ResearchResult where
  "example_result = assemble example_input"

definition example_output :: jsstring where
  "example_output =
     js ''{\"query\":\"q\",\"answer\":\"Paris [1]\",\"research_metadata\":{'' @
     js ''\"sources_searched\":1,\"sources_processed\":1,\"research_time_seconds\":54.5,'' @
     js ''\"confidence_score\":0.5,\"query_type\":\"factual\",\"sub_questions\":[]},'' @
     js ''\"sources\":[{\"title\":\"t\",\"url\":\"https://example.org\",'' @
     js ''\"relevance_score\":0.5,\"key_findings\":\"k\",\"domain\":\"example.org\",'' @
     js ''\"last_updated\":\"2024-01-01\",\"content_length\":10,\"quality_score\":0.75}],'' @
     js ''\"follow_up_suggestions\":[]}''"

text \<open>
  \<open>JSON.parse\<close> on the two texts that the examples parse, the example output and the
  empty text. No example parses another text, and its value there is left unspecified.
\<close>

definition JSON_parse_example :: "jsstring \<Rightarrow> js_error + jsval" where
  "JSON_parse_example text =
     (if text = example_output then Inr (result_value example_result)
      else if text = [] then Inl (SyntaxError (js ''Unexpected end of JSON input''))
      else undefined)"

text \<open>What a failing subprocess writes to its standard error.\<close>

definition example_traceback :: jsstring where
  "example_traceback =
     js ''Traceback (most recent call last): RuntimeError: MISTRAL_API_KEY=sk-123 rejected''"

section \<open>An invariant of the callbacks\<close>

text \<open>
  While the timeout is pending no response has been sent, once the close event was
  handled a response has been sent, and until a response is sent the status code is 200.
\<close>

definition consistent :: "handler_state \<Rightarrow> bool" where
  "consistent s =
     ((timeout_pending s \<longrightarrow> res_calls s = []) \<and> (closed s \<longrightarrow> res_calls s \<noteq> []) \<and>
      (res_calls s = [] \<longrightarrow> statusCode s = 200))"

text \<open>The responses of the route: a result with status 200, or an error with 400, 408 or 500.\<close>

definition route_response :: "response \<Rightarrow> bool" where
  "route_response r =
     (status_code r = 200 \<or> status_code r \<in> set [400, 408, 500] \<and> error_body (body r))"

text \<open>
  A response is the failure of a subprocess that has closed, in the events \<open>evs\<close>, with an
  exit code that is not 0, after standard error \<open>err\<close> and what the events before the
  close add to it.
\<close>

definition failure_origin :: "jsstring \<Rightarrow> event list \<Rightarrow> response \<Rightarrow> bool" where
  "failure_origin err evs r =
     (\<exists>before code after. evs = before @ Close code # after \<and> code \<noteq> Some 0 \<and>
        r = process_failed (err @ stderr_text before))"

section \<open>Properties of the synchronous part\<close>

lemmas eval_defs = api_research_def destructure_def researchOptions_def or_else_def spawned_def
  js_def quoted_def internal_error_def invalid_request_def field_def

lemma get_total: "b \<noteq> JUndefined \<Longrightarrow> b \<noteq> JNull \<Longrightarrow> \<exists>v. get b k = Inr v"
  by (cases b) simp_all

lemma destructure_present:
  assumes "b \<noteq> JUndefined" "b \<noteq> JNull"
  obtains q opts where "destructure b = Inr (q, opts)" "get b ''query'' = Inr q"
    "opts \<noteq> JUndefined"
proof -
  from assms obtain q o' where "get b ''query'' = Inr q" "get b ''options'' = Inr o'"
    using get_total by blast
  with assms that show thesis
    by (cases "o' = JUndefined") (simp_all add: destructure_def)
qed

lemma absent_body_not_spawned:
  "b = JUndefined \<or> b = JNull \<Longrightarrow> \<exists>e. api_research b = Responded (internal_error e)"
  by (auto simp: api_research_def destructure_def)

lemma or_else_truthy: "truthy b \<Longrightarrow> truthy (or_else a b)"
  by (simp add: or_else_def)

lemma or_else_falsy: "\<not> truthy a \<Longrightarrow> or_else a b = b"
  by (simp add: or_else_def)

lemma researchOptions_present:
  assumes "options \<noteq> JUndefined" "options \<noteq> JNull"
  shows "researchOptions options =
     Inr (JObj [
       (js ''depth'', or_else (field options ''depth'') (JStr (js ''standard''))),
       (js ''max_sources'', or_else (field options ''max_sources'') (JNum 20)),
       (js ''include_contact_info'', or_else (field options ''include_contact_info'') (JBool False)),
       (js ''research_timeout'', or_else (field options ''research_timeout'') (JNum 300))])"
  using assms by (cases options) (simp_all add: researchOptions_def field_def)

lemma researchOptions_null:
  "options = JUndefined \<or> options = JNull \<Longrightarrow> \<exists>e. researchOptions options = Inl e"
  by (auto simp: researchOptions_def)

lemma api_research_Spawned:
  assumes "api_research req_body = Spawned s"
  obtains q options where "destructure req_body = Inr (JStr q, options)" "q \<noteq> []"
    "options \<noteq> JUndefined" "options \<noteq> JNull"
    "s = spawned (JStr q) (JObj [
       (js ''depth'', or_else (field options ''depth'') (JStr (js ''standard''))),
       (js ''max_sources'', or_else (field options ''max_sources'') (JNum 20)),
       (js ''include_contact_info'', or_else (field options ''include_contact_info'') (JBool False)),
       (js ''research_timeout'', or_else (field options ''research_timeout'') (JNum 300))])"
proof -
  from assms obtain qv options where d: "destructure req_body = Inr (qv, options)"
    by (auto simp: api_research_def split: sum.splits)
  with assms have ok: "truthy qv" "is_string qv"
    by (auto simp: api_research_def split: if_splits)
  then obtain q where qv: "qv = JStr q" "q \<noteq> []" by (cases qv) auto
  from assms d ok obtain ro where ro: "researchOptions options = Inr ro" "s = spawned qv ro"
    by (auto simp: api_research_def split: sum.splits)
  with researchOptions_null have nn: "options \<noteq> JUndefined" "options \<noteq> JNull" by fastforce+
  with ro researchOptions_present [OF nn] d qv that show thesis by simp
qed

lemma field_options_requestData:
  "field (field (requestData (spawned qv (JObj kvs))) ''options'') k = field (JObj kvs) k"
  by (simp add: spawned_def field_def js_def)

lemma dropWhile_all: "(\<forall>x\<in>set (dropWhile P xs). P x) \<longleftrightarrow> (\<forall>x\<in>set xs. P x)"
  by (induction xs) auto

lemma trim_empty_iff: "trim s = [] \<longleftrightarrow> (\<forall>c\<in>set s. is_whitespace c)"
  by (simp add: trim_def dropWhile_eq_Nil_conv dropWhile_all)

lemma fetches_handleSubmit:
  "fetches (handleSubmit String text r) = (if trim text = [] then [] else [request_body text])"
  by (cases "try_block String r") (simp_all add: handleSubmit_def)

text \<open>
  C1: a request body whose query is missing, is the empty string or is not a string is
  answered at once with status 400 and the message "Query is required and must be a
  string", and the research subprocess is not spawned.
\<close>

theorem invalid_query_rejected:
  assumes "get req_body ''query'' = Inr q"
    and "q = JUndefined \<or> q = JStr [] \<or> \<not> is_string q"
  shows "api_research req_body = Responded invalid_request \<and>
         \<not> pipeline_started (api_research req_body)"
proof -
  from assms(1) have present: "req_body \<noteq> JUndefined" "req_body \<noteq> JNull" by auto
  then obtain q' opts where d: "destructure req_body = Inr (q', opts)"
    and q: "get req_body ''query'' = Inr q'"
    by (rule destructure_present)
  from q assms(1) have "q' = q" by simp
  moreover from assms(2) have "\<not> truthy q \<or> \<not> is_string q" by auto
  ultimately show ?thesis using d by (simp add: api_research_def)
qed

text \<open>The body \<open>{query: ""}\<close> is rejected.\<close>

theorem invalid_query_rejected_witness:
  "get (JObj [(js ''query'', JStr [])]) ''query'' = Inr (JStr []) \<and>
   api_research (JObj [(js ''query'', JStr [])]) = Responded invalid_request \<and>
   \<not> pipeline_started (api_research (JObj [(js ''query'', JStr [])]))"
proof -
  have h: "get (JObj [(js ''query'', JStr [])]) ''query'' = Inr (JStr [])" by simp
  show ?thesis using h invalid_query_rejected [OF h] by simp
qed

text \<open>
  C2, as stated, fails: the route spawns the subprocess for a request whose depth is
  "bogus", whose \<open>max_sources\<close> and \<open>research_timeout\<close> are negative and whose
  \<open>include_contact_info\<close> is a string, and hands these options on as they are.
\<close>

theorem unchecked_options_counterexample:
  "api_research unchecked_body = Spawned (spawned (JStr (js ''q'')) unchecked_options) \<and>
   \<not> spec_request_shape (requestData (spawned (JStr (js ''q'')) unchecked_options))"
  by (simp add: unchecked_body_def unchecked_options_def spec_request_shape_def eval_defs)

text \<open>
  C2, amended: every request handed to the subprocess is \<open>{query, options}\<close> with a
  non-empty string as query and exactly the four options depth, \<open>max_sources\<close>,
  \<open>include_contact_info\<close> and \<open>research_timeout\<close>; each option is the caller's value
  when that is truthy and the default ("standard", 20, false, 300) otherwise, so depth,
  \<open>max_sources\<close> and \<open>research_timeout\<close> are truthy and \<open>include_contact_info\<close> is
  truthy or false. The options are not checked any further.
\<close>

theorem accepted_request_shape:
  assumes "api_research req_body = Spawned s"
  shows "\<exists>q options d m i t.
           destructure req_body = Inr (JStr q, options) \<and> q \<noteq> [] \<and>
           requestData s =
             JObj [(js ''query'', JStr q),
                   (js ''options'', JObj [(js ''depth'', d), (js ''max_sources'', m),
                                         (js ''include_contact_info'', i),
                                         (js ''research_timeout'', t)])] \<and>
           d = or_else (field options ''depth'') (JStr (js ''standard'')) \<and>
           m = or_else (field options ''max_sources'') (JNum 20) \<and>
           i = or_else (field options ''include_contact_info'') (JBool False) \<and>
           t = or_else (field options ''research_timeout'') (JNum 300) \<and>
           truthy d \<and> truthy m \<and> (truthy i \<or> i = JBool False) \<and> truthy t"
proof -
  from assms obtain q options where *: "destructure req_body = Inr (JStr q, options)" "q \<noteq> []"
    "s = spawned (JStr q) (JObj [
       (js ''depth'', or_else (field options ''depth'') (JStr (js ''standard''))),
       (js ''max_sources'', or_else (field options ''max_sources'') (JNum 20)),
       (js ''include_contact_info'', or_else (field options ''include_contact_info'') (JBool False)),
       (js ''research_timeout'', or_else (field options ''research_timeout'') (JNum 300))])"
    by (rule api_research_Spawned)
  have "truthy (or_else (field options ''depth'') (JStr (js ''standard'')))"
    by (rule or_else_truthy) (simp add: js_def)
  moreover have "truthy (or_else (field options ''max_sources'') (JNum 20))"
    by (rule or_else_truthy) simp
  moreover have "truthy (or_else (field options ''research_timeout'') (JNum 300))"
    by (rule or_else_truthy) simp
  moreover have "truthy (or_else (field options ''include_contact_info'') (JBool False)) \<or>
                 or_else (field options ''include_contact_info'') (JBool False) = JBool False"
    by (simp add: or_else_def)
  ultimately show ?thesis using * by (simp add: spawned_def)
qed

text \<open>The request with the unchecked options is accepted, and has this shape.\<close>

theorem accepted_request_shape_witness:
  "api_research unchecked_body = Spawned (spawned (JStr (js ''q'')) unchecked_options) \<and>
   (\<exists>q options d m i t.
     destructure unchecked_body = Inr (JStr q, options) \<and> q \<noteq> [] \<and>
     requestData (spawned (JStr (js ''q'')) unchecked_options) =
       JObj [(js ''query'', JStr q),
             (js ''options'', JObj [(js ''depth'', d), (js ''max_sources'', m),
                                   (js ''include_contact_info'', i),
                                   (js ''research_timeout'', t)])] \<and>
     d = or_else (field options ''depth'') (JStr (js ''standard'')) \<and>
     m = or_else (field options ''max_sources'') (JNum 20) \<and>
     i = or_else (field options ''include_contact_info'') (JBool False) \<and>
     t = or_else (field options ''research_timeout'') (JNum 300) \<and>
     truthy d \<and> truthy m \<and> (truthy i \<or> i = JBool False) \<and> truthy t)"
proof -
  have h: "api_research unchecked_body = Spawned (spawned (JStr (js ''q'')) unchecked_options)"
    by (simp add: unchecked_body_def unchecked_options_def eval_defs)
  show ?thesis using h accepted_request_shape [OF h] by (rule conjI)
qed

text \<open>
  C9: when the query is valid and an option is present but falsy (\<open>max_sources: 0\<close>,
  \<open>research_timeout: 0\<close>, \<open>depth: ""\<close>, \<open>include_contact_info: false\<close>), the route does not
  reject the request: it spawns the subprocess and hands it the default (20, 300,
  "standard", false) in place of the value.
\<close>

theorem falsy_option_replaced_by_default:
  assumes "destructure req_body = Inr (JStr q, options)" and "q \<noteq> []" and "options \<noteq> JNull"
  shows "\<exists>s. api_research req_body = Spawned s \<and>
           (\<not> truthy (field options ''depth'') \<longrightarrow>
              field (field (requestData s) ''options'') ''depth'' = JStr (js ''standard'')) \<and>
           (\<not> truthy (field options ''max_sources'') \<longrightarrow>
              field (field (requestData s) ''options'') ''max_sources'' = JNum 20) \<and>
           (\<not> truthy (field options ''include_contact_info'') \<longrightarrow>
              field (field (requestData s) ''options'') ''include_contact_info'' = JBool False) \<and>
           (\<not> truthy (field options ''research_timeout'') \<longrightarrow>
              field (field (requestData s) ''options'') ''research_timeout'' = JNum 300)"
proof -
  from assms(1) have "options \<noteq> JUndefined"
    by (auto simp: destructure_def split: if_splits sum.splits)
  from researchOptions_present [OF this assms(3)] assms(1,2)
  have "api_research req_body = Spawned (spawned (JStr q) (JObj [
       (js ''depth'', or_else (field options ''depth'') (JStr (js ''standard''))),
       (js ''max_sources'', or_else (field options ''max_sources'') (JNum 20)),
       (js ''include_contact_info'', or_else (field options ''include_contact_info'') (JBool False)),
       (js ''research_timeout'', or_else (field options ''research_timeout'') (JNum 300))]))"
    by (simp add: api_research_def)
  then show ?thesis
    by (simp add: field_options_requestData or_else_falsy) (simp add: field_def js_def)
qed

text \<open>With all four options falsy the subprocess gets the four defaults.\<close>

theorem falsy_option_replaced_by_default_witness:
  "destructure falsy_options_body = Inr (JStr (js ''q''), falsy_options) \<and>
   js ''q'' \<noteq> [] \<and> falsy_options \<noteq> JNull \<and>
   \<not> truthy (field falsy_options ''depth'') \<and>
   \<not> truthy (field falsy_options ''max_sources'') \<and>
   \<not> truthy (field falsy_options ''include_contact_info'') \<and>
   \<not> truthy (field falsy_options ''research_timeout'') \<and>
   (\<exists>s. api_research falsy_options_body = Spawned s \<and>
        field (field (requestData s) ''options'') ''depth'' = JStr (js ''standard'') \<and>
        field (field (requestData s) ''options'') ''max_sources'' = JNum 20 \<and>
        field (field (requestData s) ''options'') ''include_contact_info'' = JBool False \<and>
        field (field (requestData s) ''options'') ''research_timeout'' = JNum 300)"
proof -
  have h: "destructure falsy_options_body = Inr (JStr (js ''q''), falsy_options)"
    by (simp add: falsy_options_body_def falsy_options_def destructure_def js_def)
  have q: "js ''q'' \<noteq> []" by (simp add: js_def)
  have n: "falsy_options \<noteq> JNull" by (simp add: falsy_options_def)
  have f: "\<not> truthy (field falsy_options ''depth'')"
    "\<not> truthy (field falsy_options ''max_sources'')"
    "\<not> truthy (field falsy_options ''include_contact_info'')"
    "\<not> truthy (field falsy_options ''research_timeout'')"
    by (simp_all add: falsy_options_def field_def js_def)
  show ?thesis using h q n f falsy_option_replaced_by_default [OF h q n] by simp
qed

text \<open>
  C10, as stated, fails: with \<open>options: null\<close> a query of one space passes the check of the
  query, but reading \<open>options.depth\<close> throws, the request is answered with status 500 and
  the subprocess is not spawned.
\<close>

theorem null_options_counterexample:
  "api_research null_options_body =
     Responded (internal_error (TypeError
       (js ''Cannot read properties of null (reading '' @ quoted ''depth'' @ js '')''))) \<and>
   \<not> pipeline_started (api_research null_options_body)"
  by (simp add: null_options_body_def eval_defs)

text \<open>
  C10, amended: for a request body whose options are absent or anything but null, the
  route spawns the subprocess exactly when the query is a string of at least one
  character, white space included, and answers with the status 400 of an invalid request
  exactly when the query is missing, empty or not a string. The form of the client sends
  no request for a query that consists of white space only, and one request otherwise.
\<close>

theorem nonempty_query_accepted:
  assumes "get req_body ''query'' = Inr q" and "get req_body ''options'' = Inr options"
    and "options \<noteq> JNull"
  shows "pipeline_started (api_research req_body) = (is_string q \<and> q \<noteq> JStr []) \<and>
         (api_research req_body = Responded invalid_request) = (\<not> (is_string q \<and> q \<noteq> JStr [])) \<and>
         fetches (handleSubmit String text r) =
           (if \<forall>c\<in>set text. is_whitespace c then [] else [request_body text])"
proof -
  from assms(1) have present: "req_body \<noteq> JUndefined" "req_body \<noteq> JNull" by auto
  with assms(1,2)
  have d: "destructure req_body = Inr (q, if options = JUndefined then JObj [] else options)"
    by (simp add: destructure_def)
  define opts where "opts = (if options = JUndefined then JObj [] else options)"
  with assms(3) have "opts \<noteq> JUndefined" "opts \<noteq> JNull" by auto
  from researchOptions_present [OF this] obtain ro where ro: "researchOptions opts = Inr ro"
    by blast
  have t: "(truthy q \<and> is_string q) = (is_string q \<and> q \<noteq> JStr [])" by (cases q) auto
  show ?thesis
  proof (cases "is_string q \<and> q \<noteq> JStr []")
    case True
    with t have "truthy q" "is_string q" by auto
    with d ro True show ?thesis
      by (simp add: api_research_def opts_def [symmetric] fetches_handleSubmit trim_empty_iff)
  next
    case False
    with t have "\<not> truthy q \<or> \<not> is_string q" by auto
    with d False show ?thesis
      by (auto simp: api_research_def fetches_handleSubmit trim_empty_iff)
  qed
qed

text \<open>
  A query of one space, without options: the route spawns the subprocess, the client's
  form sends nothing.
\<close>

theorem nonempty_query_accepted_witness:
  "get whitespace_body ''query'' = Inr (JStr (js '' '')) \<and>
   get whitespace_body ''options'' = Inr JUndefined \<and>
   list_all is_whitespace (js '' '') \<and>
   pipeline_started (api_research whitespace_body) \<and>
   api_research whitespace_body \<noteq> Responded invalid_request \<and>
   fetches (handleSubmit (\<lambda>v. []) (js '' '') (Rejects (TypeError (js ''Failed to fetch'')))) = []"
proof -
  have h1: "get whitespace_body ''query'' = Inr (JStr (js '' ''))"
    and h2: "get whitespace_body ''options'' = Inr JUndefined"
    by (simp_all add: whitespace_body_def js_def)
  have ws: "list_all is_whitespace (js '' '')" by (simp add: js_def is_whitespace_def)
  have "JUndefined \<noteq> JNull" by simp
  from nonempty_query_accepted [OF h1 h2 this, of "\<lambda>v. []" "js '' ''"
      "Rejects (TypeError (js ''Failed to fetch''))"] h1 h2 ws
  show ?thesis by (simp add: js_def list_all_iff)
qed

section \<open>Properties of the callbacks\<close>

lemmas callback_defs = on_close_def on_timeout_def res_json_def json_call_def res_status_def
  headersSent_def Let_def

lemma spawned_consistent: "consistent (spawned qv ro)"
  by (simp add: consistent_def spawned_def)

lemma step_consistent: "consistent s \<Longrightarrow> consistent (step P s e)"
  by (cases e) (auto simp: consistent_def callback_defs split: sum.splits)

lemma run_consistent: "consistent s \<Longrightarrow> consistent (run P s evs)"
  unfolding run_def by (induction evs arbitrary: s) (simp_all add: step_consistent)

lemma run_append: "run P s (xs @ ys) = run P (run P s xs) ys"
  by (simp add: run_def)

lemma run_Cons: "run P s (e # evs) = run P (step P s e) evs"
  by (simp add: run_def)

lemma run_Nil: "run P s [] = s"
  by (simp add: run_def)

lemma res_calls_step: "\<exists>rs. res_calls (step P s e) = res_calls s @ rs"
  by (cases e) (auto simp: callback_defs split: sum.splits)

lemma delivered_step: "delivered s = Some r \<Longrightarrow> delivered (step P s e) = Some r"
proof -
  assume a: "delivered s = Some r"
  obtain rs where "res_calls (step P s e) = res_calls s @ rs" using res_calls_step by blast
  with a show ?thesis by (auto simp: delivered_def split: list.splits)
qed

lemma delivered_run: "delivered s = Some r \<Longrightarrow> delivered (run P s evs) = Some r"
  unfolding run_def by (induction evs arbitrary: s) (simp_all add: delivered_step)

lemma killed_step: "killed s \<Longrightarrow> killed (step P s e)"
  by (cases e) (auto simp: callback_defs split: sum.splits)

lemma killed_run: "killed s \<Longrightarrow> killed (run P s evs)"
  unfolding run_def by (induction evs arbitrary: s) (simp_all add: killed_step)

lemma Spawned_consistent: "api_research b = Spawned s \<Longrightarrow> consistent s"
  by (erule api_research_Spawned) (simp add: spawned_consistent)

lemma Spawned_pending: "api_research b = Spawned s \<Longrightarrow> timeout_pending s"
  by (erule api_research_Spawned) (simp add: spawned_def)

lemma Spawned_timeout_arg:
  "api_research b = Spawned s \<Longrightarrow>
   timeout_arg s = field (field (requestData s) ''options'') ''research_timeout''"
  by (erule api_research_Spawned) (simp add: spawned_def field_def js_def)

lemma timeout_step:
  assumes "consistent s" "timeout_pending s"
  shows "killed (step P s TimeoutFires)" "delivered (step P s TimeoutFires) = Some timed_out"
    "res_calls (step P s TimeoutFires) = [timed_out]" "\<not> closed (step P s TimeoutFires)"
    "statusCode (step P s TimeoutFires) = 408"
  using assms
  by (auto simp: consistent_def callback_defs delivered_def timed_out_def)

lemma data_step:
  "is_data e \<Longrightarrow> res_calls (step P s e) = res_calls s \<and> closed (step P s e) = closed s \<and>
     uncaught (step P s e) = uncaught s \<and> timeout_pending (step P s e) = timeout_pending s \<and>
     statusCode (step P s e) = statusCode s"
  by (cases e) auto

lemma data_run:
  "list_all is_data evs \<Longrightarrow>
     res_calls (run P s evs) = res_calls s \<and> closed (run P s evs) = closed s \<and>
     uncaught (run P s evs) = uncaught s \<and> timeout_pending (run P s evs) = timeout_pending s \<and>
     statusCode (run P s evs) = statusCode s"
  unfolding run_def by (induction evs arbitrary: s) (simp_all add: data_step)

lemma api_research_request_body:
  "q \<noteq> [] \<Longrightarrow> api_research (request_body q) = Spawned (spawned (JStr q) client_options)"
  by (simp add: request_body_def client_options_def eval_defs)

lemma timeout_delay_whole_seconds:
  assumes "1 \<le> n"
  shows "timeout_delay engine (JNum (of_nat n)) = (if n \<le> 2147483 then 1000 * n else 1)"
proof -
  have i: "of_int \<lfloor>(of_nat n :: rat)\<rfloor> = (of_nat n :: rat)" by simp
  have "(of_nat (1::nat) :: rat) \<le> of_nat (n * 1000)"
    by (rule of_nat_mono) (use assms in simp)
  then have lo: "(1::rat) \<le> of_nat n * 1000" by simp
  have "((of_nat (n * 1000) :: rat) \<le> of_nat 2147483647) = (n * 1000 \<le> 2147483647)"
    by (simp only: of_nat_le_iff)
  then have hi: "((of_nat n :: rat) * 1000 \<le> 2147483647) = (n \<le> 2147483)" by simp linarith
  have fl: "nat \<lfloor>(of_nat n :: rat) * 1000\<rfloor> = 1000 * n"
  proof -
    have "(of_nat n :: rat) * 1000 = of_nat (1000 * n)" by simp
    then show ?thesis by (simp only: floor_of_nat nat_int)
  qed
  show ?thesis unfolding timeout_delay_def by (simp only: jsval.case i lo hi fl if_True simp_thms)
qed

lemma timeout_at_delay:
  assumes "consistent s" "timeout_pending s" "d \<le> D"
    and "list_all (\<lambda>(t, e). D < t \<or> is_data e) tes"
  shows "killed (run P s (schedule d tes)) \<and> delivered (run P s (schedule d tes)) = Some timed_out"
  using assms
proof (induction tes arbitrary: s)
  case Nil
  from timeout_step(1,2) [OF Nil.prems(1,2), of P] show ?case
    unfolding schedule.simps run_Cons run_Nil by (rule conjI)
next
  case (Cons te tes)
  obtain t e where te: "te = (t, e)" by (cases te)
  show ?case
  proof (cases "d \<le> t")
    case True
    then have sch: "schedule d (te # tes) = TimeoutFires # e # map snd tes"
      by (simp add: te)
    have "killed (run P (step P s TimeoutFires) (e # map snd tes))"
      "delivered (run P (step P s TimeoutFires) (e # map snd tes)) = Some timed_out"
      using timeout_step(1,2) [OF Cons.prems(1,2), of P]
      by (blast intro: killed_run, blast intro: delivered_run)
    then show ?thesis unfolding sch run_Cons [of P s TimeoutFires] by (rule conjI)
  next
    case False
    then have sch: "schedule d (te # tes) = e # schedule d tes"
      by (simp add: te)
    from False Cons.prems(3,4) te have d: "is_data e" by auto
    with Cons.prems(1,2) have "consistent (step P s e)" "timeout_pending (step P s e)"
      by (simp_all add: step_consistent data_step)
    moreover from Cons.prems(4) have "list_all (\<lambda>(t, e). D < t \<or> is_data e) tes" by simp
    ultimately show ?thesis unfolding sch run_Cons [of P s e]
      using Cons.IH Cons.prems(3) by blast
  qed
qed

text \<open>
  C3: when the request is spawned with a \<open>research_timeout\<close> of \<open>n\<close> whole seconds,
  \<open>n\<close> at least 1, and the subprocess has not closed when \<open>1000 * n\<close> milliseconds have
  passed, the subprocess is killed and the caller receives the response 408 "Research
  request timed out", whatever the subprocess does before and afterwards; the caller
  does not receive a result. The timeout is armed with a delay of \<open>1000 * n\<close>
  milliseconds, or of 1 millisecond when that is more than 2147483647.
\<close>

theorem timeout_kills_and_answers_408:
  assumes "api_research req_body = Spawned s0"
    and "field (field (requestData s0) ''options'') ''research_timeout'' = JNum (of_nat n)"
    and "1 \<le> n"
    and "list_all (\<lambda>(t, e). 1000 * n < t \<or> is_data e) tes"
  shows "killed (run_timed engine P s0 tes) \<and>
         delivered (run_timed engine P s0 tes) =
           Some (Response 408 (JObj [(js ''error'', JStr (js ''Research request timed out''))])) \<and>
         timeout_delay engine (timeout_arg s0) = (if n \<le> 2147483 then 1000 * n else 1)"
proof -
  have a: "timeout_arg s0 = JNum (of_nat n)"
    using Spawned_timeout_arg [OF assms(1)] assms(2) by simp
  have d: "timeout_delay engine (timeout_arg s0) = (if n \<le> 2147483 then 1000 * n else 1)"
    unfolding a by (rule timeout_delay_whole_seconds [OF assms(3)])
  with assms(3) have le: "timeout_delay engine (timeout_arg s0) \<le> 1000 * n" by simp
  from timeout_at_delay [OF Spawned_consistent [OF assms(1)] Spawned_pending [OF assms(1)] le assms(4)]
  show ?thesis using d by (simp add: run_timed_def timed_out_def)
qed

text \<open>
  The client's request, with its timeout of 120 seconds: the subprocess writes to its
  standard error after half a second and is still running after 120 seconds; it closes,
  killed, at 120004 milliseconds.
\<close>

theorem timeout_kills_and_answers_408_witness:
  "api_research (request_body (js ''q'')) = Spawned (spawned (JStr (js ''q'')) client_options) \<and>
   field (field (requestData (spawned (JStr (js ''q'')) client_options)) ''options'')
     ''research_timeout'' = JNum (of_nat 120) \<and>
   (1::nat) \<le> 120 \<and>
   list_all (\<lambda>(t, e). 1000 * 120 < t \<or> is_data e)
     [(500 :: nat, StderrData (js ''working'')), (120004, Close None)] \<and>
   killed (run_timed undefined JSON_parse_example (spawned (JStr (js ''q'')) client_options)
             [(500, StderrData (js ''working'')), (120004, Close None)]) \<and>
   delivered (run_timed undefined JSON_parse_example (spawned (JStr (js ''q'')) client_options)
                [(500, StderrData (js ''working'')), (120004, Close None)]) =
     Some (Response 408 (JObj [(js ''error'', JStr (js ''Research request timed out''))])) \<and>
   timeout_delay undefined (timeout_arg (spawned (JStr (js ''q'')) client_options)) = 120000"
proof -
  have h1: "api_research (request_body (js ''q'')) =
              Spawned (spawned (JStr (js ''q'')) client_options)"
    by (rule api_research_request_body) (simp add: js_def)
  have h2: "field (field (requestData (spawned (JStr (js ''q'')) client_options)) ''options'')
     ''research_timeout'' = JNum (of_nat 120)"
    by (simp add: spawned_def client_options_def field_def js_def)
  have h3: "(1::nat) \<le> 120" by simp
  have h4: "list_all (\<lambda>(t, e). 1000 * 120 < t \<or> is_data e)
     [(500 :: nat, StderrData (js ''working'')), (120004, Close None)]"
    by simp
  from timeout_kills_and_answers_408 [OF h1 h2 h3 h4, of undefined JSON_parse_example] h1 h2 h4
  show ?thesis by simp
qed

lemma error_buf_close: "error_buf (step P s (Close code)) = error_buf s"
  by (auto simp: callback_defs split: sum.splits)

lemma output_buf_close: "output_buf (step P s (Close code)) = output_buf s"
  by (auto simp: callback_defs split: sum.splits)

lemma close_after_response:
  assumes "res_calls s = [r]" "\<not> closed s"
  shows "res_calls (step P s (Close code)) =
           r # (if code \<noteq> Some 0 then [process_failed (error_buf s)]
                else case P (output_buf s) of
                  Inl e \<Rightarrow> [parse_failed e]
                | Inr result \<Rightarrow>
                    [Response (statusCode s) result, parse_failed headers_sent_error])"
    and "uncaught (step P s (Close code))"
  using assms
  by (auto simp: callback_defs process_failed_def parse_failed_def split: sum.splits)

text \<open>
  C8: after the timeout has fired and the response 408 was sent, the close event of the
  subprocess makes the handler call \<open>res.json\<close> again on the same request: with the
  response 500 "Research process failed" when the exit code is not 0 (or is null); when
  it is 0, with the parsed result, under the status code 408 that is still set, and then
  with the response 500 "Failed to parse research results", which is also the call when
  the output does not parse. Nothing guards these calls; the exception of the last one
  escapes the callback.
\<close>

theorem second_response_after_timeout:
  assumes "api_research req_body = Spawned s0" and "timeout_pending (run P s0 before)"
    and "list_all is_data between"
    and "s = run P s0 (before @ TimeoutFires # between @ [Close code])"
  shows "res_calls s =
           timed_out # (if code \<noteq> Some 0 then [process_failed (error_buf s)]
                        else case P (output_buf s) of
                          Inl e \<Rightarrow> [parse_failed e]
                        | Inr result \<Rightarrow> [Response 408 result, parse_failed headers_sent_error]) \<and>
         uncaught s"
proof -
  define s1 where "s1 = step P (run P s0 before) TimeoutFires"
  define s2 where "s2 = run P s1 between"
  have c: "consistent (run P s0 before)"
    using assms(1) by (simp add: Spawned_consistent run_consistent)
  from timeout_step(3,4,5) [OF c assms(2), of P]
  have "res_calls s1 = [timed_out]" "\<not> closed s1" "statusCode s1 = 408"
    by (simp_all add: s1_def)
  with data_run [OF assms(3), of P s1]
  have s2: "res_calls s2 = [timed_out]" "\<not> closed s2" and st: "statusCode s2 = 408"
    by (simp_all add: s2_def)
  have s: "s = step P s2 (Close code)"
    by (simp add: assms(4) s2_def s1_def run_append run_Cons run_Nil)
  have eb: "error_buf s = error_buf s2" and ob: "output_buf s = output_buf s2"
    unfolding s by (rule error_buf_close, rule output_buf_close)
  from close_after_response [OF s2, of P code] show ?thesis
    unfolding eb ob st unfolding s by (rule conjI)
qed

text \<open>
  The timeout fires at once and the killed subprocess closes with the exit code null; and
  the timeout fires after the subprocess has printed the example result, and the
  subprocess then closes with the exit code 0.
\<close>

theorem second_response_after_timeout_witness:
  "api_research (request_body (js ''q'')) = Spawned (spawned (JStr (js ''q'')) client_options) \<and>
   timeout_pending (run JSON_parse_example (spawned (JStr (js ''q'')) client_options) []) \<and>
   list_all is_data [StderrData (js ''Terminated'')] \<and>
   res_calls (run JSON_parse_example (spawned (JStr (js ''q'')) client_options)
                ([] @ TimeoutFires # [StderrData (js ''Terminated'')] @ [Close None])) =
     [timed_out, process_failed (js ''Terminated'')] \<and>
   uncaught (run JSON_parse_example (spawned (JStr (js ''q'')) client_options)
                ([] @ TimeoutFires # [StderrData (js ''Terminated'')] @ [Close None])) \<and>
   timeout_pending (run JSON_parse_example (spawned (JStr (js ''q'')) client_options)
                      [StdoutData example_output]) \<and>
   res_calls (run JSON_parse_example (spawned (JStr (js ''q'')) client_options)
                ([StdoutData example_output] @ TimeoutFires # [] @ [Close (Some 0)])) =
     [timed_out, Response 408 (result_value example_result), parse_failed headers_sent_error]"
proof -
  have h1: "api_research (request_body (js ''q'')) =
              Spawned (spawned (JStr (js ''q'')) client_options)"
    by (rule api_research_request_body) (simp add: js_def)
  have h2: "timeout_pending (run JSON_parse_example (spawned (JStr (js ''q'')) client_options) [])"
    by (simp add: run_def spawned_def)
  have h3: "list_all is_data [StderrData (js ''Terminated'')]" by simp
  have e: "error_buf (run JSON_parse_example (spawned (JStr (js ''q'')) client_options)
                ([] @ TimeoutFires # [StderrData (js ''Terminated'')] @ [Close None])) =
             js ''Terminated''"
    by (simp add: run_def spawned_def callback_defs)
  have h2': "timeout_pending (run JSON_parse_example (spawned (JStr (js ''q'')) client_options)
                      [StdoutData example_output])"
    by (simp add: run_def spawned_def)
  have h3': "list_all is_data []" by simp
  have o: "JSON_parse_example
             (output_buf (run JSON_parse_example (spawned (JStr (js ''q'')) client_options)
                ([StdoutData example_output] @ TimeoutFires # [] @ [Close (Some 0)]))) =
             Inr (result_value example_result)"
    by (simp add: run_def spawned_def callback_defs JSON_parse_example_def)
  from second_response_after_timeout [OF h1 h2 h3 refl, of None]
    second_response_after_timeout [OF h1 h2' h3' refl, of "Some 0"] h1 h2 h3 e h2' o
  show ?thesis by simp
qed

lemma error_body_error:
  "m \<in> set error_messages \<Longrightarrow> error_body (JObj [(js ''error'', JStr m)])"
  by (simp add: error_body_def field_def)

lemma error_body_details:
  "m \<in> set error_messages \<Longrightarrow>
   error_body (JObj [(js ''error'', JStr m), (js ''details'', JStr d)])"
  by (simp add: error_body_def field_def)

lemma route_response_cases:
  "route_response invalid_request" "route_response (internal_error e)"
  "route_response (process_failed err)" "route_response (parse_failed e)"
  "route_response timed_out" "route_response (Response 200 v)"
  by (simp_all add: route_response_def invalid_request_def internal_error_def
        process_failed_def parse_failed_def timed_out_def or_else_def
        error_body_error error_body_details error_messages_def)

lemma error_field:
  "field (body invalid_request) ''error'' = JStr (js ''Query is required and must be a string'')"
  "field (body (internal_error e)) ''error'' = JStr (js ''Internal server error'')"
  "field (body (process_failed err)) ''error'' = JStr (js ''Research process failed'')"
  "field (body (parse_failed e)) ''error'' = JStr (js ''Failed to parse research results'')"
  "field (body timed_out) ''error'' = JStr (js ''Research request timed out'')"
  by (simp_all add: invalid_request_def internal_error_def process_failed_def parse_failed_def
        timed_out_def field_def)

lemma other_messages:
  "js ''Query is required and must be a string'' \<noteq> js ''Research process failed''"
  "js ''Internal server error'' \<noteq> js ''Research process failed''"
  "js ''Failed to parse research results'' \<noteq> js ''Research process failed''"
  "js ''Research request timed out'' \<noteq> js ''Research process failed''"
  by (simp_all add: js_def)

lemma details_process_failed:
  "field (body (process_failed err)) ''details'' =
     or_else (JStr err) (JStr (js ''Unknown error occurred''))"
  by (simp add: process_failed_def field_def js_def)

lemma pending_fresh:
  assumes "consistent s" "timeout_pending s"
  shows "res_calls s = []" "\<not> closed s" "statusCode s = 200"
  using assms by (auto simp: consistent_def)

lemma close_first:
  assumes "consistent s" "timeout_pending s"
  shows "delivered (step P s (Close code)) =
           Some (if code \<noteq> Some 0 then process_failed (error_buf s)
                 else case P (output_buf s) of
                   Inl e \<Rightarrow> parse_failed e
                 | Inr result \<Rightarrow> Response 200 result)"
  using pending_fresh [OF assms]
  by (auto simp: callback_defs delivered_def process_failed_def parse_failed_def
           split: sum.splits)

lemma failure_origin_data:
  assumes "failure_origin err' evs r"
    and "is_data e" and "err' = err @ stderr_text [e]"
  shows "failure_origin err (e # evs) r"
proof -
  from assms(1) obtain before code after where
    *: "evs = before @ Close code # after" "code \<noteq> Some 0"
       "r = process_failed (err' @ stderr_text before)"
    unfolding failure_origin_def by blast
  have "stderr_text (e # before) = stderr_text [e] @ stderr_text before"
    by (cases e) simp_all
  with * assms(3) have "e # evs = (e # before) @ Close code # after"
    "r = process_failed (err @ stderr_text (e # before))"
    by simp_all
  with *(2) show ?thesis unfolding failure_origin_def by blast
qed

lemma first_response:
  assumes "consistent s" "timeout_pending s" "delivered (run P s evs) = Some r"
  shows "route_response r \<and>
         (status_code r \<noteq> 200 \<and> field (body r) ''error'' = JStr (js ''Research process failed'')
            \<longrightarrow> failure_origin (error_buf s) evs r)"
  using assms
proof (induction evs arbitrary: s)
  case Nil
  with pending_fresh(1) [OF Nil.prems(1,2)] show ?case by (simp add: run_Nil delivered_def)
next
  case (Cons e evs)
  show ?case
  proof (cases "is_data e")
    case True
    with Cons.prems(1,2) have c: "consistent (step P s e)" "timeout_pending (step P s e)"
      by (simp_all add: step_consistent data_step)
    from Cons.prems(3) have d: "delivered (run P (step P s e) evs) = Some r"
      by (simp add: run_Cons)
    from pending_fresh(2) [OF Cons.prems(1,2)] True
    have eb: "error_buf (step P s e) = error_buf s @ stderr_text [e]"
      by (cases e) simp_all
    from Cons.IH [OF c d] failure_origin_data [OF _ True eb] show ?thesis by blast
  next
    case False
    then consider code where "e = Close code" | "e = TimeoutFires" by (cases e) auto
    then show ?thesis
    proof cases
      case 1
      define r0 where "r0 = (if code \<noteq> Some 0 then process_failed (error_buf s)
                 else case P (output_buf s) of
                   Inl e \<Rightarrow> parse_failed e
                 | Inr result \<Rightarrow> Response 200 result)"
      from close_first [OF Cons.prems(1,2), of P code]
      have "delivered (run P (step P s e) evs) = Some r0"
        unfolding r0_def 1 by (rule delivered_run)
      with Cons.prems(3) have r: "r = r0" by (simp add: run_Cons)
      have rr: "route_response r"
        unfolding r r0_def by (simp add: route_response_cases split: sum.splits)
      have "failure_origin (error_buf s) (e # evs) r"
        if "status_code r \<noteq> 200" "field (body r) ''error'' = JStr (js ''Research process failed'')"
      proof -
        from that have "code \<noteq> Some 0"
          unfolding r r0_def by (auto simp: error_field other_messages split: sum.splits)
        then have "r = process_failed (error_buf s @ stderr_text [])"
          unfolding r r0_def by simp
        with \<open>code \<noteq> Some 0\<close> 1 show ?thesis
          unfolding failure_origin_def by (metis append_Nil)
      qed
      with rr show ?thesis by blast
    next
      case 2
      from timeout_step(2) [OF Cons.prems(1,2), of P]
      have "delivered (run P (step P s e) evs) = Some timed_out"
        unfolding 2 by (rule delivered_run)
      with Cons.prems(3) have "r = timed_out" by (simp add: run_Cons)
      then show ?thesis by (simp add: route_response_cases error_field other_messages)
    qed
  qed
qed

text \<open>
  C4, amended: every failure response that a caller receives from the route has status
  400, 408 or 500 and a body \<open>{error}\<close> or \<open>{error, details}\<close>; \<open>error\<close> is one of five
  fixed messages and \<open>details\<close> is a string. There is no separate kind. When the message
  is "Research process failed", the subprocess has closed with an exit code that is not
  0, and \<open>details\<close> is, unfiltered, all that the subprocess wrote to its standard error
  before it closed ("Unknown error occurred" when that is nothing).
\<close>

theorem failure_response_shape:
  assumes "received P req_body evs = Some r" and "status_code r \<noteq> 200"
  shows "status_code r \<in> {400, 408, 500} \<and> error_body (body r) \<and>
         (field (body r) ''error'' = JStr (js ''Research process failed'') \<longrightarrow>
            (\<exists>before code after. evs = before @ Close code # after \<and> code \<noteq> Some 0 \<and>
               field (body r) ''details'' =
                 or_else (JStr (stderr_text before)) (JStr (js ''Unknown error occurred''))))"
proof (cases "api_research req_body")
  case (Responded r')
  with assms(1) have "r = r'" by (simp add: received_def)
  with Responded have "r = invalid_request \<or> (\<exists>e. r = internal_error e)"
    by (auto simp: api_research_def split: sum.splits if_splits)
  with assms(2) show ?thesis
    using route_response_cases(1,2) by (auto simp: route_response_def error_field other_messages)
next
  case (Spawned s0)
  with assms(1) have d: "delivered (run P s0 evs) = Some r" by (simp add: received_def)
  have e: "error_buf s0 = []"
    using Spawned by (elim api_research_Spawned) (simp add: spawned_def)
  from first_response [OF Spawned_consistent [OF Spawned] Spawned_pending [OF Spawned] d]
  have rr: "route_response r"
    and fo: "field (body r) ''error'' = JStr (js ''Research process failed'') \<Longrightarrow>
             failure_origin [] evs r"
    using assms(2) e by simp_all
  have "\<exists>before code after. evs = before @ Close code # after \<and> code \<noteq> Some 0 \<and>
               field (body r) ''details'' =
                 or_else (JStr (stderr_text before)) (JStr (js ''Unknown error occurred''))"
    if "field (body r) ''error'' = JStr (js ''Research process failed'')"
  proof -
    from fo [OF that] obtain before code after where
      *: "evs = before @ Close code # after" "code \<noteq> Some 0"
         "r = process_failed (stderr_text before)"
      unfolding failure_origin_def by auto
    from *(3) have "field (body r) ''details'' =
        or_else (JStr (stderr_text before)) (JStr (js ''Unknown error occurred''))"
      by (simp only: details_process_failed)
    with *(1,2) show ?thesis by blast
  qed
  with rr assms(2) show ?thesis by (auto simp: route_response_def)
qed

lemma failing_subprocess_received:
  "received JSON_parse_example (request_body (js ''q''))
     [StderrData example_traceback, Close (Some 1)] =
   Some (Response 500 (JObj [(js ''error'', JStr (js ''Research process failed'')),
                             (js ''details'', JStr example_traceback)]))"
proof -
  have "example_traceback \<noteq> []" by (simp add: example_traceback_def js_def)
  moreover have "js ''q'' \<noteq> []" by (simp add: js_def)
  ultimately show ?thesis
    by (simp add: received_def api_research_request_body run_def spawned_def callback_defs
          delivered_def process_failed_def or_else_def)
qed

text \<open>
  C4, as stated, fails: when the subprocess exits with code 1 after writing a traceback
  with a credential to its standard error, the response 500 carries that text unchanged
  in \<open>details\<close>; its body has the two fields \<open>error\<close> and \<open>details\<close> and no kind.
\<close>

theorem raw_stderr_counterexample:
  "received JSON_parse_example (request_body (js ''q''))
     [StderrData example_traceback, Close (Some 1)] =
     Some (Response 500 (JObj [(js ''error'', JStr (js ''Research process failed'')),
                               (js ''details'', JStr example_traceback)])) \<and>
   keys (JObj [(js ''error'', JStr (js ''Research process failed'')),
               (js ''details'', JStr example_traceback)]) = [js ''error'', js ''details''] \<and>
   \<not> spec_structured_error
       (Response 500 (JObj [(js ''error'', JStr (js ''Research process failed'')),
                            (js ''details'', JStr example_traceback)]))"
  using failing_subprocess_received
  by (simp add: spec_structured_error_def field_def) (simp add: js_def)

text \<open>
  The response to the failing subprocess is a failure response of this shape.
\<close>

theorem failure_response_shape_witness:
  "received JSON_parse_example (request_body (js ''q''))
     [StderrData example_traceback, Close (Some 1)] =
     Some (Response 500 (JObj [(js ''error'', JStr (js ''Research process failed'')),
                               (js ''details'', JStr example_traceback)])) \<and>
   status_code (Response 500 (JObj [(js ''error'', JStr (js ''Research process failed'')),
                       (js ''details'', JStr example_traceback)])) \<noteq> 200 \<and>
   error_body (JObj [(js ''error'', JStr (js ''Research process failed'')),
                     (js ''details'', JStr example_traceback)]) \<and>
   stderr_text [StderrData example_traceback] = example_traceback"
proof -
  have h: "received JSON_parse_example (request_body (js ''q''))
     [StderrData example_traceback, Close (Some 1)] =
     Some (Response 500 (JObj [(js ''error'', JStr (js ''Research process failed'')),
                               (js ''details'', JStr example_traceback)]))"
    by (rule failing_subprocess_received)
  have n: "status_code (Response 500 (JObj [(js ''error'', JStr (js ''Research process failed'')),
                       (js ''details'', JStr example_traceback)])) \<noteq> 200"
    by simp
  from failure_response_shape [OF h n] h show ?thesis by simp
qed







section \<open>Properties of the result\<close>









section \<open>Properties of the client\<close>

lemma statuses_handleSubmit:
  assumes "trim text \<noteq> []"
  shows "statuses (handleSubmit String text r) =
     [\<lparr>status = starting, message = js ''Initializing research...'', progress = None\<rparr>,
      (case try_block String r of
         Inr researchResult \<Rightarrow>
           \<lparr>status = complete, message = js ''Research complete!'', progress = None\<rparr>
       | Inl e \<Rightarrow> \<lparr>status = error, message = message_of e, progress = None\<rparr>)]"
  using assms by (cases "try_block String r") (simp_all add: handleSubmit_def)

text \<open>
  C5: for every request that \<open>handleSubmit\<close> sends, every status it sets has one of
  the eight tags and no progress (so any progress is between 0 and 100), and the last
  status set is complete or error. The awaited \<open>fetch\<close> is taken to settle.
\<close>

theorem statuses_of_a_request:
  assumes "fetches (handleSubmit String text r) \<noteq> []"
  shows "(\<forall>st \<in> set (statuses (handleSubmit String text r)).
            status st \<in> {starting, expanding, searching, scraping, ranking, synthesizing,
                          complete, error} \<and>
            (case progress st of None \<Rightarrow> True | Some p \<Rightarrow> 0 \<le> p \<and> p \<le> 100)) \<and>
         statuses (handleSubmit String text r) \<noteq> [] \<and>
         status (last (statuses (handleSubmit String text r))) \<in> {complete, error}"
proof -
  from assms have "trim text \<noteq> []" by (auto simp: fetches_handleSubmit split: if_splits)
  from statuses_handleSubmit [OF this, of String r] show ?thesis
    by (cases "try_block String r") simp_all
qed

text \<open>
  A request that is answered with the example result: the statuses are starting, then
  complete.
\<close>

theorem statuses_of_a_request_witness:
  "fetches (handleSubmit (\<lambda>v. []) (js ''q'') (Resolves True (Inr (result_value example_result))))
     = [request_body (js ''q'')] \<and>
   map status (statuses (handleSubmit (\<lambda>v. []) (js ''q'')
      (Resolves True (Inr (result_value example_result))))) = [starting, complete] \<and>
   map progress (statuses (handleSubmit (\<lambda>v. []) (js ''q'')
      (Resolves True (Inr (result_value example_result))))) = [None, None]"
proof -
  have t: "trim (js ''q'') \<noteq> []" by (simp add: trim_empty_iff js_def is_whitespace_def)
  then have h: "fetches (handleSubmit (\<lambda>v. []) (js ''q'')
      (Resolves True (Inr (result_value example_result)))) \<noteq> []"
    by (simp add: fetches_handleSubmit)
  from statuses_of_a_request [OF h] t show ?thesis
    by (simp add: fetches_handleSubmit statuses_handleSubmit try_block_def)
qed

section \<open>Properties of the pipeline's deadline\<close>

lemma run_stages_bound:
  "run_stages deadline elapsed ds = Inr t \<Longrightarrow> elapsed \<le> deadline \<Longrightarrow> elapsed \<le> t \<and> t \<le> deadline"
proof (induction ds arbitrary: elapsed)
  case Nil
  then show ?case by simp
next
  case (Cons d ds)
  from Cons.prems have "\<not> deadline < elapsed + d" by (auto split: if_splits)
  with Cons.prems have "run_stages deadline (elapsed + d) ds = Inr t" "elapsed + d \<le> deadline"
    by simp_all
  from Cons.IH [OF this] show ?case by simp
qed

text \<open>
  C7: when the pipeline returns a result, its \<open>research_time_seconds\<close> is at least 0
  and at most \<open>research_timeout\<close>.
\<close>

theorem research_time_within_timeout:
  assumes "pipeline_time research_timeout stage_ms = Inr t"
  shows "0 \<le> t \<and> t \<le> of_nat research_timeout"
proof -
  from assms obtain ms where ms: "run_stages (1000 * research_timeout) 0 stage_ms = Inr ms"
    and t: "t = of_nat ms / 1000"
    by (auto simp: pipeline_time_def split: sum.splits)
  from run_stages_bound [OF ms] have "ms \<le> 1000 * research_timeout" by simp
  then have "(of_nat ms :: rat) \<le> of_nat (1000 * research_timeout)"
    by (simp only: of_nat_le_iff)
  with t show ?thesis by simp
qed

text \<open>
  Six stages that take 54.5 seconds together, under a timeout of 120 seconds.
\<close>

theorem research_time_within_timeout_witness:
  "pipeline_time 120 [400, 2500, 30000, 1500, 20000, 100] = Inr (109 / 2) \<and>
   (0::rat) \<le> 109 / 2 \<and> (109 / 2 :: rat) \<le> of_nat 120"
proof -
  have h: "pipeline_time 120 [400, 2500, 30000, 1500, 20000, 100] = Inr (109 / 2)"
    by (simp add: pipeline_time_def)
  from research_time_within_timeout [OF h] h show ?thesis by simp
qed

end
